theory Spec2Isabelle
  imports Complex_Main "HOL-Library.Sublist"
begin

section \<open>JavaScript numbers and strings\<close>

text \<open>
  A JavaScript number is a binary64 value: \<open>NaN\<close>, an infinity, or a finite value
  \<open>Fin x\<close> whose \<open>x\<close> is the real it denotes. Every arithmetic operation computes the
  exact real result and rounds it to the nearest binary64 value, a tie to the even
  significand (\<open>fl\<close>): a result of magnitude \<open>2^1024\<close> or more after rounding is an
  infinity, and below \<open>2^-1022\<close> the values are the multiples of \<open>2^-1074\<close>, so a small
  result underflows to zero. Negative zero is identified with zero (it only decides
  the sign of an infinity produced by dividing by a zero).

  A fractional literal of the source, such as \<open>0.7\<close>, denotes \<open>fl 0.7\<close>, the binary64
  value nearest to it; an integer literal below \<open>2^53\<close> denotes itself.

  A JavaScript string is modelled by the UTF-8 bytes of its text, so the literals below
  are the bytes of the literals in \<open>App.js\<close>.
\<close>

datatype jsnum = NaN | NInf | Fin real | PInf

definition inf_of_sign :: "real \<Rightarrow> jsnum" where
  "inf_of_sign s = (if s < 0 then NInf else PInf)"

text \<open>Rounding to the nearest integer, a tie to the even one.\<close>

definition round_even :: "real \<Rightarrow> int" where
  "round_even q =
     (let f = \<lfloor>q\<rfloor>; r = q - of_int f
      in if r < 1 / 2 then f
         else if 1 / 2 < r then f + 1
         else if even f then f
         else f + 1)"

text \<open>
  The exponent \<open>e\<close> of the binade of \<open>x\<close>, \<open>2^e \<le> |x| < 2^(e+1)\<close>, and \<open>-1022\<close> for zero and
  the subnormal range.
\<close>

definition binade :: "real \<Rightarrow> int" where
  "binade x = (if x = 0 then - 1022 else max (- 1022) \<lfloor>log 2 \<bar>x\<bar>\<rfloor>)"

text \<open>
  The binary64 value of a real: the nearest multiple of the unit in the last place of
  its binade, a tie to even, and an infinity when that is \<open>2^1024\<close> or more.
\<close>

definition fl :: "real \<Rightarrow> jsnum" where
  "fl x =
     (let u = 2 powi (binade x - 52);
          y = of_int (round_even (x / u)) * u
      in if 2 ^ 1024 \<le> \<bar>y\<bar> then inf_of_sign x else Fin y)"

fun isNaN :: "jsnum \<Rightarrow> bool" where
  "isNaN NaN = True"
| "isNaN _ = False"

fun js_lt :: "jsnum \<Rightarrow> jsnum \<Rightarrow> bool" where
  "js_lt NaN _ = False"
| "js_lt _ NaN = False"
| "js_lt (Fin x) (Fin y) = (x < y)"
| "js_lt _ NInf = False"
| "js_lt NInf _ = True"
| "js_lt PInf _ = False"
| "js_lt _ PInf = True"

definition js_le :: "jsnum \<Rightarrow> jsnum \<Rightarrow> bool" where
  "js_le a b = (js_lt a b \<or> (a = b \<and> \<not> isNaN a))"

definition js_gt :: "jsnum \<Rightarrow> jsnum \<Rightarrow> bool" where
  "js_gt a b = js_lt b a"

definition js_ge :: "jsnum \<Rightarrow> jsnum \<Rightarrow> bool" where
  "js_ge a b = js_le b a"

fun js_sign :: "jsnum \<Rightarrow> real" where
  "js_sign NaN = 0"
| "js_sign NInf = - 1"
| "js_sign (Fin x) = sgn x"
| "js_sign PInf = 1"

fun js_neg :: "jsnum \<Rightarrow> jsnum" where
  "js_neg NaN = NaN"
| "js_neg NInf = PInf"
| "js_neg (Fin x) = Fin (- x)"
| "js_neg PInf = NInf"

fun js_mul :: "jsnum \<Rightarrow> jsnum \<Rightarrow> jsnum" where
  "js_mul NaN _ = NaN"
| "js_mul _ NaN = NaN"
| "js_mul (Fin x) (Fin y) = fl (x * y)"
| "js_mul a b =
     (if js_sign a * js_sign b = 0 then NaN else inf_of_sign (js_sign a * js_sign b))"

fun js_div :: "jsnum \<Rightarrow> jsnum \<Rightarrow> jsnum" where
  "js_div NaN _ = NaN"
| "js_div _ NaN = NaN"
| "js_div (Fin x) (Fin y) =
     (if y \<noteq> 0 then fl (x / y) else if x = 0 then NaN else inf_of_sign x)"
| "js_div (Fin x) _ = Fin 0"
| "js_div a (Fin y) = inf_of_sign (if y < 0 then - js_sign a else js_sign a)"
| "js_div _ _ = NaN"

definition Math_min :: "jsnum \<Rightarrow> jsnum \<Rightarrow> jsnum" where
  "Math_min a b = (if isNaN a \<or> isNaN b then NaN else if js_lt a b then a else b)"

definition Math_max :: "jsnum \<Rightarrow> jsnum \<Rightarrow> jsnum" where
  "Math_max a b = (if isNaN a \<or> isNaN b then NaN else if js_lt a b then b else a)"

text \<open>\<open>Math.round\<close> rounds to the nearest integer, a tie towards \<open>+\<infinity>\<close>.\<close>

fun Math_round :: "jsnum \<Rightarrow> jsnum" where
  "Math_round (Fin x) = Fin (of_int \<lfloor>x + 1 / 2\<rfloor>)"
| "Math_round n = n"

definition odd_integer :: "real \<Rightarrow> bool" where
  "odd_integer y = (y \<in> \<int> \<and> odd \<lfloor>y\<rfloor>)"

text \<open>
  \<open>Math.pow\<close>, following the case list of \<open>Number::exponentiate\<close>. Its last case, a
  finite base and a finite exponent, both not zero, and no negative base with a
  fractional exponent, returns an implementation-approximated value of the power: the
  language does not fix its bits, so that approximation is a parameter.
\<close>

type_synonym pow_impl = "real \<Rightarrow> real \<Rightarrow> jsnum"

fun Math_pow :: "pow_impl \<Rightarrow> jsnum \<Rightarrow> jsnum \<Rightarrow> jsnum" where
  "Math_pow pw b NaN = NaN"
| "Math_pow pw b (Fin y) =
     (if y = 0 then Fin 1
      else case b of
        NaN \<Rightarrow> NaN
      | PInf \<Rightarrow> if 0 < y then PInf else Fin 0
      | NInf \<Rightarrow> if 0 < y then (if odd_integer y then NInf else PInf) else Fin 0
      | Fin x \<Rightarrow>
          if x = 0 then (if 0 < y then Fin 0 else PInf)
          else if x < 0 \<and> y \<notin> \<int> then NaN
          else pw x y)"
| "Math_pow pw b PInf =
     (case b of
        NaN \<Rightarrow> NaN
      | Fin x \<Rightarrow> if 1 < \<bar>x\<bar> then PInf else if \<bar>x\<bar> = 1 then NaN else Fin 0
      | _ \<Rightarrow> PInf)"
| "Math_pow pw b NInf =
     (case b of
        NaN \<Rightarrow> NaN
      | Fin x \<Rightarrow> if 1 < \<bar>x\<bar> then Fin 0 else if \<bar>x\<bar> = 1 then NaN else PInf
      | _ \<Rightarrow> Fin 0)"

text \<open>
  One admissible approximation, the exact power correctly rounded. It only fills the
  parameter in the closed examples below, none of which states a value computed by it.
\<close>

definition pow_rounded :: pow_impl where
  "pow_rounded x y = fl (if x < 0 then x powi \<lfloor>y\<rfloor> else x powr y)"

subsection \<open>parseFloat\<close>

text \<open>
  \<open>parseFloat\<close> drops leading white space and line terminators, then reads the longest
  prefix that is a \<open>StrDecimalLiteral\<close>: an optional sign, then \<open>Infinity\<close> or decimal
  digits with an optional fraction and an optional exponent. Without such a prefix the
  result is \<open>NaN\<close>. The value is the binary64 value of the decimal value read.
\<close>

definition white_space :: "string list" where
  "white_space =
    [[CHR 0x09], [CHR 0x0A], [CHR 0x0B], [CHR 0x0C], [CHR 0x0D], [CHR 0x20],
     [CHR 0xC2, CHR 0xA0], [CHR 0xE1, CHR 0x9A, CHR 0x80],
     [CHR 0xE2, CHR 0x80, CHR 0x80], [CHR 0xE2, CHR 0x80, CHR 0x81],
     [CHR 0xE2, CHR 0x80, CHR 0x82], [CHR 0xE2, CHR 0x80, CHR 0x83],
     [CHR 0xE2, CHR 0x80, CHR 0x84], [CHR 0xE2, CHR 0x80, CHR 0x85],
     [CHR 0xE2, CHR 0x80, CHR 0x86], [CHR 0xE2, CHR 0x80, CHR 0x87],
     [CHR 0xE2, CHR 0x80, CHR 0x88], [CHR 0xE2, CHR 0x80, CHR 0x89],
     [CHR 0xE2, CHR 0x80, CHR 0x8A], [CHR 0xE2, CHR 0x80, CHR 0xA8],
     [CHR 0xE2, CHR 0x80, CHR 0xA9], [CHR 0xE2, CHR 0x80, CHR 0xAF],
     [CHR 0xE2, CHR 0x81, CHR 0x9F], [CHR 0xE3, CHR 0x80, CHR 0x80],
     [CHR 0xEF, CHR 0xBB, CHR 0xBF]]"

function trimStart :: "string \<Rightarrow> string" where
  "trimStart s =
     (case find (\<lambda>w. prefix w s) white_space of
        None \<Rightarrow> s
      | Some w \<Rightarrow> trimStart (drop (length w) s))"
  by pat_completeness auto
termination
proof (relation "measure length")
  show "wf (measure length)" by simp
next
  fix s w :: string
  assume f: "find (\<lambda>w. prefix w s) white_space = Some w"
  then have "prefix w s" and "w \<in> set white_space"
    by (auto simp: find_Some_iff)
  then have "w \<noteq> []" and "length w \<le> length s"
    by (auto simp: white_space_def prefix_length_le)
  then show "(drop (length w) s, s) \<in> measure length"
    by (cases w) auto
qed

definition digit_of :: "char \<Rightarrow> nat option" where
  "digit_of = map_of
    [(CHR ''0'', 0), (CHR ''1'', 1), (CHR ''2'', 2), (CHR ''3'', 3), (CHR ''4'', 4),
     (CHR ''5'', 5), (CHR ''6'', 6), (CHR ''7'', 7), (CHR ''8'', 8), (CHR ''9'', 9)]"

definition is_digit :: "char \<Rightarrow> bool" where
  "is_digit c = (digit_of c \<noteq> None)"

definition digits_val :: "string \<Rightarrow> nat" where
  "digits_val ds = foldl (\<lambda>acc c. 10 * acc + the (digit_of c)) 0 ds"

definition take_sign :: "string \<Rightarrow> bool \<times> string" where
  "take_sign s =
     (case s of
        [] \<Rightarrow> (False, s)
      | c # r \<Rightarrow>
          if c = CHR ''-'' then (True, r)
          else if c = CHR ''+'' then (False, r)
          else (False, s))"

definition exponent_part :: "string \<Rightarrow> real" where
  "exponent_part s =
     (case s of
        [] \<Rightarrow> 1
      | c # r \<Rightarrow>
          if c = CHR ''e'' \<or> c = CHR ''E'' then
            (let (eneg, r') = take_sign r; ds = takeWhile is_digit r'
             in if ds = [] then 1
                else if eneg then 1 / 10 ^ digits_val ds
                else 10 ^ digits_val ds)
          else 1)"

definition unsigned_decimal :: "string \<Rightarrow> real option" where
  "unsigned_decimal s =
     (let ip = takeWhile is_digit s;
          r1 = dropWhile is_digit s;
          (fp, r2) =
            (case r1 of
               [] \<Rightarrow> ([], r1)
             | c # r \<Rightarrow>
                 if c = CHR ''.'' then (takeWhile is_digit r, dropWhile is_digit r)
                 else ([], r1))
      in if ip = [] \<and> fp = [] then None
         else Some ((of_nat (digits_val ip) + of_nat (digits_val fp) / 10 ^ length fp)
                    * exponent_part r2))"

definition parseFloat :: "string \<Rightarrow> jsnum" where
  "parseFloat input =
     (let (neg, s) = take_sign (trimStart input)
      in if prefix ''Infinity'' s then (if neg then NInf else PInf)
         else case unsigned_decimal s of
                None \<Rightarrow> NaN
              | Some v \<Rightarrow> fl (if neg then - v else v))"


section \<open>The engine, first copy (\<open>App.js\<close> lines 1 to 404)\<close>

subsection \<open>Constant tables\<close>

record sex_constants =
  kappa :: jsnum
  alpha :: jsnum
  sexFactor :: jsnum

definition CKD_EPI_2021_name :: string where
  "CKD_EPI_2021_name = ''CKD-EPI 2021''"

definition CKD_EPI_2021_female :: sex_constants where
  "CKD_EPI_2021_female =
     \<lparr>kappa = fl 0.7, alpha = js_neg (fl 0.241), sexFactor = fl 1.012\<rparr>"

definition CKD_EPI_2021_male :: sex_constants where
  "CKD_EPI_2021_male =
     \<lparr>kappa = fl 0.9, alpha = js_neg (fl 0.302), sexFactor = Fin 1.0\<rparr>"

definition SCHWARTZ_2009_name :: string where
  "SCHWARTZ_2009_name = ''Bedside Schwartz 2009''"

definition SCHWARTZ_2009_constant :: jsnum where
  "SCHWARTZ_2009_constant = fl 0.413"

text \<open>An entry of \<open>CKD_STAGES\<close>; \<open>G1\<close> has no \<open>max\<close> and \<open>G5\<close> has no \<open>min\<close>.\<close>

record band =
  band_min :: "jsnum option"
  band_max :: "jsnum option"
  label :: string
  color :: string
  risk :: string

text \<open>The object \<open>{ stage: s, ...b }\<close> that \<open>getCKDStage\<close> returns.\<close>

record stage_info = band +
  stage :: string

definition with_stage :: "string \<Rightarrow> band \<Rightarrow> stage_info" where
  "with_stage s b =
     \<lparr>band_min = band_min b, band_max = band_max b, label = label b, color = color b,
      risk = risk b, stage = s\<rparr>"

record ckd_stages =
  G1 :: band
  G2 :: band
  G3a :: band
  G3b :: band
  G4 :: band
  G5 :: band

definition CKD_STAGES :: ckd_stages where
  "CKD_STAGES =
     \<lparr>G1 = \<lparr>band_min = Some (Fin 90), band_max = None, label = ''Normal or high'',
             color = ''bg-green-500'', risk = ''Low''\<rparr>,
      G2 = \<lparr>band_min = Some (Fin 60), band_max = Some (Fin 89),
             label = ''Mildly decreased'', color = ''bg-green-400'', risk = ''Low''\<rparr>,
      G3a = \<lparr>band_min = Some (Fin 45), band_max = Some (Fin 59),
              label = ''Mild to moderately decreased'', color = ''bg-yellow-500'',
              risk = ''Moderate''\<rparr>,
      G3b = \<lparr>band_min = Some (Fin 30), band_max = Some (Fin 44),
              label = ''Moderate to severely decreased'', color = ''bg-orange-500'',
              risk = ''High''\<rparr>,
      G4 = \<lparr>band_min = Some (Fin 15), band_max = Some (Fin 29),
             label = ''Severely decreased'', color = ''bg-red-500'', risk = ''Very High''\<rparr>,
      G5 = \<lparr>band_min = None, band_max = Some (Fin 14), label = ''Kidney failure'',
             color = ''bg-red-700'', risk = ''Very High''\<rparr>\<rparr>"

subsection \<open>Validators\<close>

text \<open>A validator returns \<open>None\<close> for \<open>null\<close> and \<open>Some\<close> of the message otherwise.\<close>

abbreviation umol_L :: string where
  "umol_L \<equiv> CHR 0xC2 # CHR 0xB5 # ''mol/L''"

abbreviation age_too_low :: string where
  "age_too_low \<equiv> ''Age must be '' @ [CHR 0xE2, CHR 0x89, CHR 0xA5] @ '' 1 year''"

definition validateAge :: "string \<Rightarrow> string option" where
  "validateAge age =
     (let numAge = parseFloat age
      in if isNaN numAge \<or> js_lt numAge (Fin 1) then Some age_too_low
         else if js_gt numAge (Fin 120) then Some ''Please verify age > 120 years''
         else None)"

definition validateCreatinine :: "string \<Rightarrow> string \<Rightarrow> string option" where
  "validateCreatinine value unit =
     (let num = parseFloat value
      in if isNaN num \<or> js_le num (Fin 0) then Some ''Creatinine must be > 0''
         else if unit = ''mg/dL'' \<and> js_gt num (Fin 20)
           then Some ''Please verify creatinine > 20 mg/dL''
         else if unit = umol_L \<and> js_gt num (Fin 1768)
           then Some (''Please verify creatinine > 1768 '' @ umol_L)
         else None)"

definition validateHeight :: "string \<Rightarrow> string option" where
  "validateHeight height =
     (let num = parseFloat height
      in if isNaN num \<or> js_lt num (Fin 30) \<or> js_gt num (Fin 250)
           then Some ''Height must be between 30-250 cm''
         else None)"

subsection \<open>Calculation functions\<close>

definition calculateCKDEPI2021 :: "pow_impl \<Rightarrow> jsnum \<Rightarrow> jsnum \<Rightarrow> bool \<Rightarrow> jsnum" where
  "calculateCKDEPI2021 pw creatinine age isFemale =
     (let constants = (if isFemale then CKD_EPI_2021_female else CKD_EPI_2021_male);
          ratio = js_div creatinine (kappa constants);
          minVal = Math_min ratio (Fin 1.0);
          maxVal = Math_max ratio (Fin 1.0);
          eGFR =
            js_mul
              (js_mul
                (js_mul
                  (js_mul (Fin 142) (Math_pow pw minVal (alpha constants)))
                  (Math_pow pw maxVal (js_neg (fl 1.200))))
                (Math_pow pw (fl 0.9938) age))
              (sexFactor constants)
      in Math_round eGFR)"

definition calculateSchwartz2009 :: "jsnum \<Rightarrow> jsnum \<Rightarrow> jsnum" where
  "calculateSchwartz2009 creatinine height =
     (let eGFR = js_div (js_mul SCHWARTZ_2009_constant height) creatinine
      in Math_round eGFR)"

definition getCKDStage :: "jsnum \<Rightarrow> stage_info" where
  "getCKDStage eGFR =
     (if js_ge eGFR (Fin 90) then with_stage ''G1'' (G1 CKD_STAGES)
      else if js_ge eGFR (Fin 60) then with_stage ''G2'' (G2 CKD_STAGES)
      else if js_ge eGFR (Fin 45) then with_stage ''G3a'' (G3a CKD_STAGES)
      else if js_ge eGFR (Fin 30) then with_stage ''G3b'' (G3b CKD_STAGES)
      else if js_ge eGFR (Fin 15) then with_stage ''G4'' (G4 CKD_STAGES)
      else with_stage ''G5'' (G5 CKD_STAGES))"

definition convertCreatinine :: "string \<Rightarrow> string \<Rightarrow> jsnum" where
  "convertCreatinine value fromUnit =
     (if fromUnit = umol_L then js_div (parseFloat value) (fl 88.4)
      else parseFloat value)"


section \<open>The engine, second copy (\<open>App.js\<close> lines 405 to 882)\<close>

definition CKD_EPI_2021_name_v2 :: string where
  "CKD_EPI_2021_name_v2 = ''CKD-EPI 2021''"

definition CKD_EPI_2021_female_v2 :: sex_constants where
  "CKD_EPI_2021_female_v2 =
     \<lparr>kappa = fl 0.7, alpha = js_neg (fl 0.241), sexFactor = fl 1.012\<rparr>"

definition CKD_EPI_2021_male_v2 :: sex_constants where
  "CKD_EPI_2021_male_v2 =
     \<lparr>kappa = fl 0.9, alpha = js_neg (fl 0.302), sexFactor = Fin 1.0\<rparr>"

definition SCHWARTZ_2009_name_v2 :: string where
  "SCHWARTZ_2009_name_v2 = ''Bedside Schwartz 2009''"

definition SCHWARTZ_2009_constant_v2 :: jsnum where
  "SCHWARTZ_2009_constant_v2 = fl 0.413"

definition CKD_STAGES_v2 :: ckd_stages where
  "CKD_STAGES_v2 =
     \<lparr>G1 = \<lparr>band_min = Some (Fin 90), band_max = None, label = ''Normal or high'',
             color = ''#10b981'', risk = ''Low''\<rparr>,
      G2 = \<lparr>band_min = Some (Fin 60), band_max = Some (Fin 89),
             label = ''Mildly decreased'', color = ''#34d399'', risk = ''Low''\<rparr>,
      G3a = \<lparr>band_min = Some (Fin 45), band_max = Some (Fin 59),
              label = ''Mild to moderately decreased'', color = ''#eab308'',
              risk = ''Moderate''\<rparr>,
      G3b = \<lparr>band_min = Some (Fin 30), band_max = Some (Fin 44),
              label = ''Moderate to severely decreased'', color = ''#f97316'',
              risk = ''High''\<rparr>,
      G4 = \<lparr>band_min = Some (Fin 15), band_max = Some (Fin 29),
             label = ''Severely decreased'', color = ''#ef4444'', risk = ''Very High''\<rparr>,
      G5 = \<lparr>band_min = None, band_max = Some (Fin 14), label = ''Kidney failure'',
             color = ''#b91c1c'', risk = ''Very High''\<rparr>\<rparr>"

definition validateAge_v2 :: "string \<Rightarrow> string option" where
  "validateAge_v2 age =
     (let numAge = parseFloat age
      in if isNaN numAge \<or> js_lt numAge (Fin 1) then Some age_too_low
         else if js_gt numAge (Fin 120) then Some ''Please verify age > 120 years''
         else None)"

definition validateCreatinine_v2 :: "string \<Rightarrow> string \<Rightarrow> string option" where
  "validateCreatinine_v2 value unit =
     (let num = parseFloat value
      in if isNaN num \<or> js_le num (Fin 0) then Some ''Creatinine must be > 0''
         else if unit = ''mg/dL'' \<and> js_gt num (Fin 20)
           then Some ''Please verify creatinine > 20 mg/dL''
         else if unit = umol_L \<and> js_gt num (Fin 1768)
           then Some (''Please verify creatinine > 1768 '' @ umol_L)
         else None)"

definition validateHeight_v2 :: "string \<Rightarrow> string option" where
  "validateHeight_v2 height =
     (let num = parseFloat height
      in if isNaN num \<or> js_lt num (Fin 30) \<or> js_gt num (Fin 250)
           then Some ''Height must be between 30-250 cm''
         else None)"

definition calculateCKDEPI2021_v2 :: "pow_impl \<Rightarrow> jsnum \<Rightarrow> jsnum \<Rightarrow> bool \<Rightarrow> jsnum" where
  "calculateCKDEPI2021_v2 pw creatinine age isFemale =
     (let constants =
            (if isFemale then CKD_EPI_2021_female_v2 else CKD_EPI_2021_male_v2);
          ratio = js_div creatinine (kappa constants);
          minVal = Math_min ratio (Fin 1.0);
          maxVal = Math_max ratio (Fin 1.0);
          eGFR =
            js_mul
              (js_mul
                (js_mul
                  (js_mul (Fin 142) (Math_pow pw minVal (alpha constants)))
                  (Math_pow pw maxVal (js_neg (fl 1.200))))
                (Math_pow pw (fl 0.9938) age))
              (sexFactor constants)
      in Math_round eGFR)"

definition calculateSchwartz2009_v2 :: "jsnum \<Rightarrow> jsnum \<Rightarrow> jsnum" where
  "calculateSchwartz2009_v2 creatinine height =
     (let eGFR = js_div (js_mul SCHWARTZ_2009_constant_v2 height) creatinine
      in Math_round eGFR)"

definition getCKDStage_v2 :: "jsnum \<Rightarrow> stage_info" where
  "getCKDStage_v2 eGFR =
     (if js_ge eGFR (Fin 90) then with_stage ''G1'' (G1 CKD_STAGES_v2)
      else if js_ge eGFR (Fin 60) then with_stage ''G2'' (G2 CKD_STAGES_v2)
      else if js_ge eGFR (Fin 45) then with_stage ''G3a'' (G3a CKD_STAGES_v2)
      else if js_ge eGFR (Fin 30) then with_stage ''G3b'' (G3b CKD_STAGES_v2)
      else if js_ge eGFR (Fin 15) then with_stage ''G4'' (G4 CKD_STAGES_v2)
      else with_stage ''G5'' (G5 CKD_STAGES_v2))"

definition convertCreatinine_v2 :: "string \<Rightarrow> string \<Rightarrow> jsnum" where
  "convertCreatinine_v2 value fromUnit =
     (if fromUnit = umol_L then js_div (parseFloat value) (fl 88.4)
      else parseFloat value)"

section \<open>The calculator component (first copy)\<close>

text \<open>
  The component keeps four pieces of state: the form data, the error object written by
  the validation effect, the result (\<open>null\<close> or \<open>{ eGFR }\<close>) and the formula name.
  A string is truthy when it is not empty.
\<close>

record formData =
  age :: string
  sex :: string
  creatinine :: string
  creatinineUnit :: string
  height :: string

record calculator =
  form :: formData
  errors :: "string \<rightharpoonup> string"
  result :: "jsnum option"
  formula :: string

text \<open>The initial state of the component, which is also what \<open>reset\<close> restores.\<close>

definition initial_form :: formData where
  "initial_form =
     \<lparr>age = [], sex = [], creatinine = [], creatinineUnit = ''mg/dL'', height = []\<rparr>"

text \<open>\<open>formData[field]\<close>; a field the object does not have reads as \<open>undefined\<close>.\<close>

definition field_of :: "formData \<Rightarrow> string \<Rightarrow> string option" where
  "field_of fd field =
     (if field = ''age'' then Some (age fd)
      else if field = ''sex'' then Some (sex fd)
      else if field = ''creatinine'' then Some (creatinine fd)
      else if field = ''creatinineUnit'' then Some (creatinineUnit fd)
      else if field = ''height'' then Some (height fd)
      else None)"

fun truthy :: "string option \<Rightarrow> bool" where
  "truthy None = False"
| "truthy (Some s) = (s \<noteq> [])"

definition isPediatric :: "formData \<Rightarrow> bool" where
  "isPediatric fd = (age fd \<noteq> [] \<and> js_lt (parseFloat (age fd)) (Fin 18))"

text \<open>The body of the validation effect: the object passed to \<open>setErrors\<close>.\<close>

definition validation_effect :: "formData \<Rightarrow> (string \<rightharpoonup> string)" where
  "validation_effect fd =
     (let newErrors = Map.empty;
          newErrors =
            (if age fd \<noteq> [] then
               (case validateAge (age fd) of
                  Some ageError \<Rightarrow>
                    if ageError \<noteq> [] then newErrors(''age'' \<mapsto> ageError) else newErrors
                | None \<Rightarrow> newErrors)
             else newErrors);
          newErrors =
            (if creatinine fd \<noteq> [] then
               (case validateCreatinine (creatinine fd) (creatinineUnit fd) of
                  Some creatError \<Rightarrow>
                    if creatError \<noteq> [] then newErrors(''creatinine'' \<mapsto> creatError)
                    else newErrors
                | None \<Rightarrow> newErrors)
             else newErrors);
          newErrors =
            (if isPediatric fd \<and> height fd \<noteq> [] then
               (case validateHeight (height fd) of
                  Some heightError \<Rightarrow>
                    if heightError \<noteq> [] then newErrors(''height'' \<mapsto> heightError)
                    else newErrors
                | None \<Rightarrow> newErrors)
             else newErrors)
      in newErrors)"

definition isFormValid :: "calculator \<Rightarrow> bool" where
  "isFormValid st =
     (let requiredFields = [''age'', ''sex'', ''creatinine''];
          requiredFields =
            (if isPediatric (form st) then requiredFields @ [''height'']
             else requiredFields)
      in list_all (\<lambda>field. truthy (field_of (form st) field)) requiredFields
         \<and> dom (errors st) = {})"

definition calculate :: "pow_impl \<Rightarrow> calculator \<Rightarrow> calculator" where
  "calculate pw st =
     (if \<not> isFormValid st then st
      else
        let a = parseFloat (age (form st));
            cr = convertCreatinine (creatinine (form st)) (creatinineUnit (form st));
            isFemale = (sex (form st) = ''female'');
            (eGFR, usedFormula) =
              (if js_ge a (Fin 18)
               then (calculateCKDEPI2021 pw cr a isFemale, CKD_EPI_2021_name)
               else
                 let h = parseFloat (height (form st))
                 in (calculateSchwartz2009 cr h, SCHWARTZ_2009_name))
        in st\<lparr>result := Some eGFR, formula := usedFormula\<rparr>)"

text \<open>
  One request to the engine: the component holds the form data \<open>fd\<close> and no result, the
  validation effect has run for \<open>fd\<close>, and the Calculate handler is called.
\<close>

definition compute :: "pow_impl \<Rightarrow> formData \<Rightarrow> calculator" where
  "compute pw fd =
     calculate pw \<lparr>form = fd, errors = validation_effect fd, result = None, formula = []\<rparr>"


text \<open>
  The fields that \<open>isFormValid\<close> requires are filled in: age, sex and creatinine, and the
  height when the age is below 18.
\<close>

definition required_filled :: "formData \<Rightarrow> bool" where
  "required_filled fd =
     (age fd \<noteq> [] \<and> sex fd \<noteq> [] \<and> creatinine fd \<noteq> []
      \<and> (isPediatric fd \<longrightarrow> height fd \<noteq> []))"

section \<open>Rounding to binary64\<close>

lemmas parseFloat_eval =
  parseFloat_def white_space_def take_sign_def unsigned_decimal_def exponent_part_def
  is_digit_def digit_of_def digits_val_def

lemma two_powr_int: "(2::real) powr of_int e = 2 powi e"
  by (rule powr_real_of_int') simp_all

lemma floor_log2_eq:
  assumes "2 powi e \<le> \<bar>x\<bar>" and "\<bar>x\<bar> < 2 powi (e + 1)"
  shows "\<lfloor>log 2 \<bar>x\<bar>\<rfloor> = e"
proof -
  have pos: "0 < \<bar>x\<bar>"
    using assms(1) by (smt (verit) zero_less_power_int)
  have "of_int e \<le> log 2 \<bar>x\<bar>"
    using assms(1) pos by (simp only: le_log_iff two_powr_int)
  moreover have "log 2 \<bar>x\<bar> < of_int (e + 1)"
  proof -
    have "\<bar>x\<bar> < 2 powr of_int (e + 1)"
      using assms(2) by (simp only: two_powr_int)
    then show ?thesis
      using pos by (subst log_less_iff) simp_all
  qed
  ultimately show ?thesis
    by (simp add: floor_eq_iff)
qed

lemma floor_log2_bounds:
  assumes "x \<noteq> 0"
  shows "2 powi \<lfloor>log 2 \<bar>x\<bar>\<rfloor> \<le> \<bar>x\<bar>" and "\<bar>x\<bar> < 2 powi (\<lfloor>log 2 \<bar>x\<bar>\<rfloor> + 1)"
proof -
  have pos: "0 < \<bar>x\<bar>"
    using assms by simp
  have "of_int \<lfloor>log 2 \<bar>x\<bar>\<rfloor> \<le> log 2 \<bar>x\<bar>"
    by simp
  then have "2 powr of_int \<lfloor>log 2 \<bar>x\<bar>\<rfloor> \<le> \<bar>x\<bar>"
    using pos by (subst (asm) le_log_iff) simp_all
  then show "2 powi \<lfloor>log 2 \<bar>x\<bar>\<rfloor> \<le> \<bar>x\<bar>"
    by (simp only: two_powr_int)
  have "log 2 \<bar>x\<bar> < of_int (\<lfloor>log 2 \<bar>x\<bar>\<rfloor> + 1)"
    by linarith
  then have "\<bar>x\<bar> < 2 powr of_int (\<lfloor>log 2 \<bar>x\<bar>\<rfloor> + 1)"
    using pos by (subst (asm) log_less_iff) simp_all
  then show "\<bar>x\<bar> < 2 powi (\<lfloor>log 2 \<bar>x\<bar>\<rfloor> + 1)"
    by (simp only: two_powr_int)
qed

lemma binade_normal:
  assumes "2 powi e \<le> \<bar>x\<bar>" and "\<bar>x\<bar> < 2 powi (e + 1)" and "- 1022 \<le> e"
  shows "binade x = e"
proof -
  have "x \<noteq> 0"
    using assms(1) by (smt (verit) zero_less_power_int abs_zero)
  then show ?thesis
    using assms(3) by (simp add: binade_def floor_log2_eq [OF assms(1,2)])
qed

lemma binade_subnormal:
  assumes "\<bar>x\<bar> < 2 powi (- 1022)"
  shows "binade x = - 1022"
proof (cases "x = 0")
  case True
  then show ?thesis
    by (simp add: binade_def)
next
  case False
  have "\<lfloor>log 2 \<bar>x\<bar>\<rfloor> < - 1022"
  proof (rule ccontr)
    assume "\<not> \<lfloor>log 2 \<bar>x\<bar>\<rfloor> < - 1022"
    then have "(2::real) powi (- 1022) \<le> 2 powi \<lfloor>log 2 \<bar>x\<bar>\<rfloor>"
      by (intro power_int_increasing) simp_all
    with floor_log2_bounds(1) [OF False] assms show False
      by linarith
  qed
  then show ?thesis
    by (simp add: binade_def)
qed


text \<open>Evaluating \<open>fl\<close> at a number whose binade is known.\<close>

lemma fl_normal:
  assumes "2 powi e \<le> \<bar>x\<bar>" and "\<bar>x\<bar> < 2 powi (e + 1)" and "- 1022 \<le> e"
  shows "fl x =
     (if 2 ^ 1024 \<le> \<bar>real_of_int (round_even (x / 2 powi (e - 52))) * 2 powi (e - 52)\<bar>
      then inf_of_sign x
      else Fin (real_of_int (round_even (x / 2 powi (e - 52))) * 2 powi (e - 52)))"
  by (simp add: fl_def binade_normal [OF assms] Let_def)

lemma fl_subnormal:
  assumes "\<bar>x\<bar> < 2 powi (- 1022)"
  shows "fl x =
     (if 2 ^ 1024 \<le> \<bar>real_of_int (round_even (x / 2 powi (- 1074))) * 2 powi (- 1074)\<bar>
      then inf_of_sign x
      else Fin (real_of_int (round_even (x / 2 powi (- 1074))) * 2 powi (- 1074)))"
  by (simp add: fl_def binade_subnormal [OF assms] Let_def)


text \<open>The binary64 values of the fractional literals of the two formulas used below.\<close>

lemma fl_0413: "fl 0.413 = Fin (7439946584416059 / 2 ^ 54)"
  by (subst fl_normal [of "- 2"]) (simp_all add: round_even_def)

lemma fl_884: "fl 88.4 = Fin (3110298492652749 / 2 ^ 45)"
  by (subst fl_normal [of 6]) (simp_all add: round_even_def)

section \<open>Reading the fields of the examples\<close>

lemma parse_abc: "parseFloat ''abc'' = NaN"
  by (simp add: parseFloat_eval)

lemma parse_empty: "parseFloat [] = NaN"
  by (simp add: parseFloat_eval)

lemma parse_1: "parseFloat ''1'' = Fin 1"
  by (simp add: parseFloat_eval, subst fl_normal [of 0], simp_all add: round_even_def)

lemma parse_1_0: "parseFloat ''1.0'' = Fin 1"
  by (simp add: parseFloat_eval, subst fl_normal [of 0], simp_all add: round_even_def)

lemma parse_10: "parseFloat ''10'' = Fin 10"
  by (simp add: parseFloat_eval, subst fl_normal [of 3], simp_all add: round_even_def)

lemma parse_25: "parseFloat ''25'' = Fin 25"
  by (simp add: parseFloat_eval, subst fl_normal [of 4], simp_all add: round_even_def)

lemma parse_60: "parseFloat ''60'' = Fin 60"
  by (simp add: parseFloat_eval, subst fl_normal [of 5], simp_all add: round_even_def)

lemma parse_70: "parseFloat ''70'' = Fin 70"
  by (simp add: parseFloat_eval, subst fl_normal [of 6], simp_all add: round_even_def)

lemma parse_100: "parseFloat ''100'' = Fin 100"
  by (simp add: parseFloat_eval, subst fl_normal [of 6], simp_all add: round_even_def)

lemma parse_120: "parseFloat ''120'' = Fin 120"
  by (simp add: parseFloat_eval, subst fl_normal [of 6], simp_all add: round_even_def)

lemma parse_150: "parseFloat ''150'' = Fin 150"
  by (simp add: parseFloat_eval, subst fl_normal [of 7], simp_all add: round_even_def)

lemma parse_0_5: "parseFloat ''0.5'' = Fin (1 / 2)"
  by (simp add: parseFloat_eval, subst fl_normal [of "- 1"], simp_all add: round_even_def)

lemma parse_0_84: "parseFloat ''0.84'' = Fin (7566047373982433 / 2 ^ 53)"
  by (simp add: parseFloat_eval, subst fl_normal [of "- 1"], simp_all add: round_even_def)

lemma parse_17_9: "parseFloat ''17.9'' = Fin (2519201041560371 / 2 ^ 47)"
  by (simp add: parseFloat_eval, subst fl_normal [of 4], simp_all add: round_even_def)

lemma parse_5e324: "parseFloat ''5e-324'' = Fin (1 / 2 ^ 1074)"
  by (simp add: parseFloat_eval, subst fl_subnormal, simp_all add: round_even_def)

section \<open>Comparisons of finite numbers\<close>

lemma js_ge_Fin: "js_ge (Fin x) (Fin y) = (y \<le> x)"
  by (auto simp: js_ge_def js_le_def)

lemma js_gt_Fin: "js_gt (Fin x) (Fin y) = (y < x)"
  by (simp add: js_gt_def)

lemma js_le_Fin: "js_le (Fin x) (Fin y) = (x \<le> y)"
  by (auto simp: js_le_def)

lemma Math_round_cases:
  "(\<exists>n::int. Math_round v = Fin (of_int n)) \<or> Math_round v = PInf \<or> Math_round v = NInf
   \<or> Math_round v = NaN"
  by (cases v) auto

section \<open>The stage classifier\<close>

lemma getCKDStage_int:
  "getCKDStage (Fin (of_int e)) =
     (if 90 \<le> e then with_stage ''G1'' (G1 CKD_STAGES)
      else if 60 \<le> e then with_stage ''G2'' (G2 CKD_STAGES)
      else if 45 \<le> e then with_stage ''G3a'' (G3a CKD_STAGES)
      else if 30 \<le> e then with_stage ''G3b'' (G3b CKD_STAGES)
      else if 15 \<le> e then with_stage ''G4'' (G4 CKD_STAGES)
      else with_stage ''G5'' (G5 CKD_STAGES))"
  by (simp add: getCKDStage_def js_ge_Fin)

lemma stage_int:
  "stage (getCKDStage (Fin (of_int e))) =
     (if 90 \<le> e then ''G1'' else if 60 \<le> e then ''G2'' else if 45 \<le> e then ''G3a''
      else if 30 \<le> e then ''G3b'' else if 15 \<le> e then ''G4'' else ''G5'')"
  by (simp add: getCKDStage_int with_stage_def)

lemma risk_int:
  "risk (getCKDStage (Fin (of_int e))) =
     (if 90 \<le> e then ''Low'' else if 60 \<le> e then ''Low'' else if 45 \<le> e then ''Moderate''
      else if 30 \<le> e then ''High'' else ''Very High'')"
  by (simp add: getCKDStage_int with_stage_def CKD_STAGES_def)

lemma getCKDStage_interval:
  fixes lo e hi :: int
  assumes "lo \<le> e" and "e \<le> hi"
    and eq: "getCKDStage (Fin (of_int lo)) = getCKDStage (Fin (of_int hi))"
  shows "getCKDStage (Fin (of_int e)) = getCKDStage (Fin (of_int lo))"
proof -
  define idx :: "int \<Rightarrow> nat" where
    "idx = (\<lambda>x. if 90 \<le> x then 5 else if 60 \<le> x then 4 else if 45 \<le> x then 3
                 else if 30 \<le> x then 2 else if 15 \<le> x then 1 else 0)"
  define codes where "codes = [''G5'', ''G4'', ''G3b'', ''G3a'', ''G2'', ''G1'']"
  define infos where
    "infos = [with_stage ''G5'' (G5 CKD_STAGES), with_stage ''G4'' (G4 CKD_STAGES),
              with_stage ''G3b'' (G3b CKD_STAGES), with_stage ''G3a'' (G3a CKD_STAGES),
              with_stage ''G2'' (G2 CKD_STAGES), with_stage ''G1'' (G1 CKD_STAGES)]"
  have mono: "idx x \<le> idx y" if "x \<le> y" for x y
    using that by (simp add: idx_def)
  have bound: "idx x < length codes" for x
    by (simp add: idx_def codes_def)
  have code: "stage (getCKDStage (Fin (of_int x))) = codes ! idx x" for x
    by (simp add: stage_int idx_def codes_def)
  have info: "getCKDStage (Fin (of_int x)) = infos ! idx x" for x
    by (simp add: getCKDStage_int idx_def infos_def)
  have "distinct codes"
    by (simp add: codes_def)
  moreover have "codes ! idx lo = codes ! idx hi"
    using eq by (simp add: code [symmetric])
  ultimately have "idx lo = idx hi"
    using bound by (simp add: nth_eq_iff_index_eq)
  with mono [OF assms(1)] mono [OF assms(2)] have "idx e = idx lo"
    by simp
  then show ?thesis
    by (simp add: info)
qed

text \<open>
  Claim C2. \<open>getCKDStage\<close> is a step function of the eGFR: for every integer \<open>e\<close> it
  returns G1 when \<open>e \<ge> 90\<close>, G2 when \<open>60 \<le> e \<le> 89\<close>, G3a when \<open>45 \<le> e \<le> 59\<close>, G3b when
  \<open>30 \<le> e \<le> 44\<close>, G4 when \<open>15 \<le> e \<le> 29\<close> and G5 when \<open>e \<le> 14\<close>, zero and the negative
  integers included, with the risk tiers Low, Low, Moderate, High, Very High and
  Very High. The bands are ordered: an integer between two integers of one stage has
  that stage too.
\<close>

theorem getCKDStage_bands:
  fixes e :: int
  shows "(90 \<le> e \<longrightarrow> stage (getCKDStage (Fin (of_int e))) = ''G1''
            \<and> risk (getCKDStage (Fin (of_int e))) = ''Low'')
       \<and> (60 \<le> e \<and> e \<le> 89 \<longrightarrow> stage (getCKDStage (Fin (of_int e))) = ''G2''
            \<and> risk (getCKDStage (Fin (of_int e))) = ''Low'')
       \<and> (45 \<le> e \<and> e \<le> 59 \<longrightarrow> stage (getCKDStage (Fin (of_int e))) = ''G3a''
            \<and> risk (getCKDStage (Fin (of_int e))) = ''Moderate'')
       \<and> (30 \<le> e \<and> e \<le> 44 \<longrightarrow> stage (getCKDStage (Fin (of_int e))) = ''G3b''
            \<and> risk (getCKDStage (Fin (of_int e))) = ''High'')
       \<and> (15 \<le> e \<and> e \<le> 29 \<longrightarrow> stage (getCKDStage (Fin (of_int e))) = ''G4''
            \<and> risk (getCKDStage (Fin (of_int e))) = ''Very High'')
       \<and> (e \<le> 14 \<longrightarrow> stage (getCKDStage (Fin (of_int e))) = ''G5''
            \<and> risk (getCKDStage (Fin (of_int e))) = ''Very High'')
       \<and> (\<forall>lo hi :: int. lo \<le> e \<and> e \<le> hi
            \<and> getCKDStage (Fin (of_int lo)) = getCKDStage (Fin (of_int hi))
            \<longrightarrow> getCKDStage (Fin (of_int e)) = getCKDStage (Fin (of_int lo)))"
proof (intro conjI impI allI)
  fix lo hi :: int
  assume "lo \<le> e \<and> e \<le> hi
    \<and> getCKDStage (Fin (of_int lo)) = getCKDStage (Fin (of_int hi))"
  then show "getCKDStage (Fin (of_int e)) = getCKDStage (Fin (of_int lo))"
    using getCKDStage_interval by blast
qed (simp_all only: stage_int risk_int, simp_all)

theorem getCKDStage_bands_witness:
  "stage (getCKDStage (Fin 90)) = ''G1'' \<and> stage (getCKDStage (Fin 89)) = ''G2''
   \<and> stage (getCKDStage (Fin 15)) = ''G4'' \<and> stage (getCKDStage (Fin 14)) = ''G5''
   \<and> stage (getCKDStage (Fin 0)) = ''G5'' \<and> stage (getCKDStage (Fin (- 7))) = ''G5''
   \<and> risk (getCKDStage (Fin 50)) = ''Moderate'' \<and> risk (getCKDStage (Fin 30)) = ''High''"
  using getCKDStage_bands [of 90] getCKDStage_bands [of 89] getCKDStage_bands [of 15]
    getCKDStage_bands [of 14] getCKDStage_bands [of 0] getCKDStage_bands [of "- 7"]
    getCKDStage_bands [of 50] getCKDStage_bands [of 30]
  by simp

section \<open>The validators\<close>

lemma validateAge_None:
  "validateAge v = None \<longleftrightarrow> (\<exists>a. parseFloat v = Fin a \<and> 1 \<le> a \<and> a \<le> 120)"
  by (cases "parseFloat v") (auto simp: validateAge_def js_gt_def)

lemma validateHeight_None:
  "validateHeight v = None \<longleftrightarrow> (\<exists>h. parseFloat v = Fin h \<and> 30 \<le> h \<and> h \<le> 250)"
  by (cases "parseFloat v") (auto simp: validateHeight_def js_gt_def)

lemma validateCreatinine_None:
  "validateCreatinine v u = None \<longleftrightarrow>
     (\<exists>c. parseFloat v = Fin c \<and> 0 < c \<and> (u = ''mg/dL'' \<longrightarrow> c \<le> 20)
          \<and> (u = umol_L \<longrightarrow> c \<le> 1768))
     \<or> (parseFloat v = PInf \<and> u \<noteq> ''mg/dL'' \<and> u \<noteq> umol_L)"
  by (cases "parseFloat v")
     (auto simp: validateCreatinine_def js_gt_def js_le_def Let_def split: if_splits)

lemma validateAge_msg: "validateAge v = Some m \<Longrightarrow> m \<noteq> []"
  by (auto simp: validateAge_def Let_def split: if_splits)

lemma validateCreatinine_msg: "validateCreatinine v u = Some m \<Longrightarrow> m \<noteq> []"
  by (auto simp: validateCreatinine_def Let_def split: if_splits)

lemma validateHeight_msg: "validateHeight v = Some m \<Longrightarrow> m \<noteq> []"
  by (auto simp: validateHeight_def Let_def split: if_splits)

lemma validation_effect_age:
  "validation_effect fd ''age'' = (if age fd \<noteq> [] then validateAge (age fd) else None)"
  by (auto simp: validation_effect_def Let_def dest: validateAge_msg split: option.splits)

lemma validation_effect_creatinine:
  "validation_effect fd ''creatinine'' =
     (if creatinine fd \<noteq> [] then validateCreatinine (creatinine fd) (creatinineUnit fd)
      else None)"
  by (auto simp: validation_effect_def Let_def dest: validateCreatinine_msg
      split: option.splits)

lemma validation_effect_height:
  "validation_effect fd ''height'' =
     (if isPediatric fd \<and> height fd \<noteq> [] then validateHeight (height fd) else None)"
  by (auto simp: validation_effect_def Let_def dest: validateHeight_msg split: option.splits)

lemma validation_effect_dom:
  "dom (validation_effect fd) \<subseteq> {''age'', ''creatinine'', ''height''}"
  by (auto simp: validation_effect_def Let_def split: option.splits if_splits)

lemma validation_effect_empty:
  "dom (validation_effect fd) = {} \<longleftrightarrow>
     validation_effect fd ''age'' = None \<and> validation_effect fd ''creatinine'' = None
     \<and> validation_effect fd ''height'' = None"
  using validation_effect_dom [of fd] by (auto simp: dom_def)

text \<open>
  Claim C5, as amended. For every raw field value that does not parse as a number, each
  validator returns its failure message (\<open>validateAge\<close> the message that the age must be
  at least 1 year, \<open>validateCreatinine\<close> that the creatinine must be above 0,
  \<open>validateHeight\<close> that the height must be between 30 and 250 cm). It is the validation
  effect that treats an empty field as not yet provided: it does not call the validator
  on an empty field. It reports an age or a creatinine field that is not empty and does
  not parse, and a height field that is not empty and does not parse when the age is
  below 18; when the age is not below 18 it does not call the height validator and
  reports no height failure.
\<close>

theorem validators_reject_unparsable:
  assumes "isNaN (parseFloat v)"
  shows "validateAge v = Some age_too_low
       \<and> validateCreatinine v u = Some ''Creatinine must be > 0''
       \<and> validateHeight v = Some ''Height must be between 30-250 cm''
       \<and> (\<forall>fd. age fd = [] \<longrightarrow> validation_effect fd ''age'' = None)
       \<and> (\<forall>fd. creatinine fd = [] \<longrightarrow> validation_effect fd ''creatinine'' = None)
       \<and> (\<forall>fd. height fd = [] \<longrightarrow> validation_effect fd ''height'' = None)
       \<and> (\<forall>fd. age fd = v \<and> v \<noteq> [] \<longrightarrow> validation_effect fd ''age'' = Some age_too_low)
       \<and> (\<forall>fd. creatinine fd = v \<and> v \<noteq> [] \<longrightarrow>
             validation_effect fd ''creatinine'' = Some ''Creatinine must be > 0'')
       \<and> (\<forall>fd. height fd = v \<and> v \<noteq> [] \<and> isPediatric fd \<longrightarrow>
             validation_effect fd ''height'' = Some ''Height must be between 30-250 cm'')
       \<and> (\<forall>fd. \<not> isPediatric fd \<longrightarrow> validation_effect fd ''height'' = None)"
proof -
  have a: "validateAge v = Some age_too_low"
    and c: "validateCreatinine v w = Some ''Creatinine must be > 0''"
    and h: "validateHeight v = Some ''Height must be between 30-250 cm''" for w
    using assms by (simp_all add: validateAge_def validateCreatinine_def validateHeight_def)
  show ?thesis
    by (simp add: a c h validation_effect_age validation_effect_creatinine
          validation_effect_height)
qed

theorem validators_reject_unparsable_witness:
  "isNaN (parseFloat ''abc'')
   \<and> validateAge ''abc'' = Some age_too_low
   \<and> validateCreatinine ''abc'' ''mg/dL'' = Some ''Creatinine must be > 0''
   \<and> validateHeight ''abc'' = Some ''Height must be between 30-250 cm''
   \<and> validation_effect (initial_form\<lparr>age := ''abc''\<rparr>) ''age'' = Some age_too_low
   \<and> validation_effect initial_form ''age'' = None
   \<and> validation_effect (initial_form\<lparr>age := ''10'', height := ''abc''\<rparr>) ''height''
       = Some ''Height must be between 30-250 cm''
   \<and> validation_effect (initial_form\<lparr>age := ''70'', height := ''abc''\<rparr>) ''height'' = None"
proof -
  have h: "isNaN (parseFloat ''abc'')"
    by (simp add: parse_abc)
  have "age (initial_form\<lparr>age := ''abc''\<rparr>) = ''abc'' \<and> ''abc'' \<noteq> []"
    and "age initial_form = []"
    and "height (initial_form\<lparr>age := ''10'', height := ''abc''\<rparr>) = ''abc'' \<and> ''abc'' \<noteq> []
         \<and> isPediatric (initial_form\<lparr>age := ''10'', height := ''abc''\<rparr>)"
    and "\<not> isPediatric (initial_form\<lparr>age := ''70'', height := ''abc''\<rparr>)"
    by (simp_all add: initial_form_def isPediatric_def parse_10 parse_70)
  then show ?thesis
    using h validators_reject_unparsable [OF h, of "''mg/dL''"] by blast
qed

text \<open>
  The claim as first stated, that a validator returns no error for a value that does not
  parse, fails on \<open>abc\<close> and on the empty string.
\<close>

theorem validators_unparsable_counterexample:
  "parseFloat ''abc'' = NaN \<and> validateAge ''abc'' \<noteq> None
   \<and> validateCreatinine ''abc'' ''mg/dL'' \<noteq> None \<and> validateHeight ''abc'' \<noteq> None
   \<and> parseFloat [] = NaN \<and> validateAge [] \<noteq> None"
  by (simp add: parse_abc parse_empty validateAge_def validateCreatinine_def
        validateHeight_def)

text \<open>
  Claim C6. For every creatinine value that parses to a number \<open>n\<close> and every unit \<open>u\<close>,
  \<open>validateCreatinine\<close> fails exactly when \<open>n \<le> 0\<close>, or \<open>n > 20\<close> with \<open>u\<close> being mg/dL, or
  \<open>n > 1768\<close> with \<open>u\<close> being the micromole unit; a threshold is never applied to the other
  unit, so 25 mg/dL is rejected and 25 in the micromole unit is accepted.
\<close>

theorem validateCreatinine_thresholds:
  assumes "parseFloat v = n" and "\<not> isNaN n"
  shows "validateCreatinine v u \<noteq> None \<longleftrightarrow>
           js_le n (Fin 0) \<or> (u = ''mg/dL'' \<and> js_gt n (Fin 20))
           \<or> (u = umol_L \<and> js_gt n (Fin 1768))"
  using assms by (simp add: validateCreatinine_def)

theorem validateCreatinine_thresholds_witness:
  "parseFloat ''25'' = Fin 25 \<and> \<not> isNaN (Fin 25)
   \<and> validateCreatinine ''25'' ''mg/dL'' \<noteq> None
   \<and> validateCreatinine ''25'' umol_L = None"
proof -
  have n: "\<not> isNaN (Fin 25)"
    by simp
  show ?thesis
    using parse_25 validateCreatinine_thresholds [OF parse_25 n, of "''mg/dL''"]
      validateCreatinine_thresholds [OF parse_25 n, of umol_L]
    by (simp add: js_gt_Fin js_le_Fin)
qed

section \<open>The two copies\<close>

text \<open>
  Claim C10. The two copies of the engine in \<open>App.js\<close> agree on every function of the
  calculation: their validators, their unit converter and their two formulas are equal
  as functions, and their stage classifiers return the same stage code, bounds, label
  and risk tier for every number, and differ in the colour, for every number.
\<close>

theorem copies_agree:
  "validateAge_v2 = validateAge
   \<and> validateCreatinine_v2 = validateCreatinine
   \<and> validateHeight_v2 = validateHeight
   \<and> convertCreatinine_v2 = convertCreatinine
   \<and> calculateCKDEPI2021_v2 = calculateCKDEPI2021
   \<and> calculateSchwartz2009_v2 = calculateSchwartz2009
   \<and> (\<forall>e. getCKDStage_v2 e = (getCKDStage e)\<lparr>color := color (getCKDStage_v2 e)\<rparr>)
   \<and> (\<forall>e. color (getCKDStage_v2 e) \<noteq> color (getCKDStage e))"
proof (intro conjI allI)
  show "validateAge_v2 = validateAge"
    by (rule ext) (simp add: validateAge_v2_def validateAge_def)
  show "validateCreatinine_v2 = validateCreatinine"
    by (intro ext) (simp add: validateCreatinine_v2_def validateCreatinine_def)
  show "validateHeight_v2 = validateHeight"
    by (rule ext) (simp add: validateHeight_v2_def validateHeight_def)
  show "convertCreatinine_v2 = convertCreatinine"
    by (intro ext) (simp add: convertCreatinine_v2_def convertCreatinine_def)
  show "calculateCKDEPI2021_v2 = calculateCKDEPI2021"
    by (intro ext)
       (simp only: calculateCKDEPI2021_v2_def calculateCKDEPI2021_def
          CKD_EPI_2021_female_v2_def CKD_EPI_2021_female_def
          CKD_EPI_2021_male_v2_def CKD_EPI_2021_male_def)
  show "calculateSchwartz2009_v2 = calculateSchwartz2009"
    by (intro ext)
       (simp only: calculateSchwartz2009_v2_def calculateSchwartz2009_def
          SCHWARTZ_2009_constant_v2_def SCHWARTZ_2009_constant_def)
next
  fix e
  show "getCKDStage_v2 e = (getCKDStage e)\<lparr>color := color (getCKDStage_v2 e)\<rparr>"
    by (simp add: getCKDStage_v2_def getCKDStage_def with_stage_def CKD_STAGES_v2_def
          CKD_STAGES_def)
next
  fix e
  show "color (getCKDStage_v2 e) \<noteq> color (getCKDStage e)"
    by (simp add: getCKDStage_v2_def getCKDStage_def with_stage_def CKD_STAGES_v2_def
          CKD_STAGES_def)
qed

section \<open>The error of a chain of roundings\<close>




section \<open>The pediatric formula\<close>



lemma schwartz_product_120:
  "js_mul SCHWARTZ_2009_constant (Fin 120) = Fin (6974949922890055 / 2 ^ 47)"
  unfolding SCHWARTZ_2009_constant_def fl_0413 js_mul.simps
  by (subst fl_normal [of 5]) (simp_all add: round_even_def)



lemma schwartz_05_120: "calculateSchwartz2009 (Fin (1 / 2)) (Fin 120) = Fin 99"
  unfolding calculateSchwartz2009_def Let_def schwartz_product_120
  by (simp, subst fl_normal [of 6], simp_all add: round_even_def floor_eq_iff)


lemma schwartz_zero_120: "calculateSchwartz2009 (Fin 0) (Fin 120) = PInf"
  unfolding calculateSchwartz2009_def Let_def schwartz_product_120
  by (simp add: inf_of_sign_def)

section \<open>The unit converter\<close>


lemma convert_5e324: "convertCreatinine ''5e-324'' umol_L = Fin 0"
  unfolding convertCreatinine_def parse_5e324 fl_884
  by (simp, subst fl_subnormal, simp_all add: round_even_def)


section \<open>The calculator component\<close>

lemma compute_errors: "errors (compute pw fd) = validation_effect fd"
  by (simp add: compute_def calculate_def Let_def split: prod.splits)

lemma isFormValid_iff:
  "isFormValid st \<longleftrightarrow> required_filled (form st) \<and> dom (errors st) = {}"
  by (simp add: isFormValid_def required_filled_def field_of_def Let_def)

lemma compute_result:
  "result (compute pw fd) =
     (if required_filled fd \<and> dom (validation_effect fd) = {} then
        Some (if js_ge (parseFloat (age fd)) (Fin 18)
              then calculateCKDEPI2021 pw
                     (convertCreatinine (creatinine fd) (creatinineUnit fd))
                     (parseFloat (age fd)) (sex fd = ''female'')
              else calculateSchwartz2009
                     (convertCreatinine (creatinine fd) (creatinineUnit fd))
                     (parseFloat (height fd)))
      else None)"
  by (simp add: compute_def calculate_def isFormValid_iff Let_def)

lemma compute_formula:
  "formula (compute pw fd) =
     (if required_filled fd \<and> dom (validation_effect fd) = {} then
        (if js_ge (parseFloat (age fd)) (Fin 18) then CKD_EPI_2021_name
         else SCHWARTZ_2009_name)
      else [])"
  by (simp add: compute_def calculate_def isFormValid_iff Let_def)

text \<open>What a form that passes the check has in its fields.\<close>

lemma valid_form_age:
  assumes "required_filled fd" and "dom (validation_effect fd) = {}"
  shows "\<exists>a. parseFloat (age fd) = Fin a \<and> 1 \<le> a \<and> a \<le> 120"
proof -
  have "validateAge (age fd) = None"
    using assms validation_effect_age [of fd]
    by (simp add: validation_effect_empty required_filled_def)
  then show ?thesis
    by (simp only: validateAge_None)
qed

lemma valid_form_creatinine:
  assumes "required_filled fd" and "dom (validation_effect fd) = {}"
  shows "validateCreatinine (creatinine fd) (creatinineUnit fd) = None"
  using assms validation_effect_creatinine [of fd]
  by (simp add: validation_effect_empty required_filled_def)

lemma compute_result_valid:
  assumes "result (compute pw fd) \<noteq> None"
  shows "required_filled fd" and "dom (validation_effect fd) = {}"
  using assms by (simp_all add: compute_result split: if_splits)

lemma compute_valid_result:
  assumes "required_filled fd" and "dom (validation_effect fd) = {}"
  shows "\<exists>v. result (compute pw fd) = Some (Math_round v)"
  using assms
  by (auto simp: compute_result calculateCKDEPI2021_def calculateSchwartz2009_def Let_def)

lemma validation_effect_no_errors:
  "validation_effect fd = Map.empty \<longleftrightarrow>
     validation_effect fd ''age'' = None \<and> validation_effect fd ''creatinine'' = None
     \<and> validation_effect fd ''height'' = None"
  using validation_effect_empty [of fd] by (simp only: dom_eq_empty_conv)

lemmas form_eval =
  required_filled_def isPediatric_def validation_effect_no_errors validation_effect_age
  validation_effect_creatinine validation_effect_height validateAge_def
  validateCreatinine_def validateHeight_def js_gt_Fin js_le_Fin js_ge_Fin
  parse_1 parse_1_0 parse_10 parse_25 parse_60 parse_70 parse_100 parse_120 parse_150
  parse_0_5 parse_0_84 parse_17_9 parse_5e324 parse_abc parse_empty

text \<open>
  Claim C4, as amended. One request reports every failure of every validator that
  applies to a field that is filled in, all at once (the height only when the age is
  below 18), under the keys age, creatinine and height. When a failure is reported no
  calculation is performed: there is no result and no formula. When no failure is
  reported and every required field is filled in (age, sex, creatinine, and the height
  when the age is below 18), the request returns a complete result: the eGFR as
  \<open>Math.round\<close> returns it, an integer unless the binary64 value it rounds is not
  finite, and the name of the formula used, from which the stage follows. When no
  failure is reported and a required field is empty, the request returns neither a
  failure nor a result.
\<close>

theorem compute_all_or_nothing:
  "errors (compute pw fd) ''age'' = (if age fd \<noteq> [] then validateAge (age fd) else None)
   \<and> errors (compute pw fd) ''creatinine'' =
       (if creatinine fd \<noteq> [] then validateCreatinine (creatinine fd) (creatinineUnit fd)
        else None)
   \<and> errors (compute pw fd) ''height'' =
       (if isPediatric fd \<and> height fd \<noteq> [] then validateHeight (height fd) else None)
   \<and> dom (errors (compute pw fd)) \<subseteq> {''age'', ''creatinine'', ''height''}
   \<and> (dom (errors (compute pw fd)) \<noteq> {} \<longrightarrow>
        result (compute pw fd) = None \<and> formula (compute pw fd) = [])
   \<and> (dom (errors (compute pw fd)) = {} \<and> required_filled fd \<longrightarrow>
        (\<exists>r. result (compute pw fd) = Some r
             \<and> ((\<exists>n::int. r = Fin (of_int n)) \<or> r = PInf \<or> r = NInf \<or> r = NaN))
        \<and> (formula (compute pw fd) = CKD_EPI_2021_name
            \<or> formula (compute pw fd) = SCHWARTZ_2009_name))
   \<and> (dom (errors (compute pw fd)) = {} \<and> \<not> required_filled fd \<longrightarrow>
        result (compute pw fd) = None \<and> formula (compute pw fd) = [])"
proof (intro conjI impI)
  show "dom (errors (compute pw fd)) \<subseteq> {''age'', ''creatinine'', ''height''}"
    unfolding compute_errors by (rule validation_effect_dom)
next
  assume "dom (errors (compute pw fd)) = {} \<and> required_filled fd"
  then obtain v where "result (compute pw fd) = Some (Math_round v)"
    using compute_valid_result [of fd pw] by (auto simp: compute_errors)
  then show "\<exists>r. result (compute pw fd) = Some r
             \<and> ((\<exists>n::int. r = Fin (of_int n)) \<or> r = PInf \<or> r = NInf \<or> r = NaN)"
    using Math_round_cases [of v] by simp
qed (simp_all add: compute_errors compute_result compute_formula validation_effect_age
       validation_effect_creatinine validation_effect_height)

theorem compute_all_or_nothing_witness:
  "dom (errors (compute pow_rounded \<lparr>age = ''10'', sex = ''male'', creatinine = ''0.5'',
          creatinineUnit = ''mg/dL'', height = ''120''\<rparr>)) = {}
   \<and> required_filled \<lparr>age = ''10'', sex = ''male'', creatinine = ''0.5'',
          creatinineUnit = ''mg/dL'', height = ''120''\<rparr>
   \<and> formula (compute pow_rounded \<lparr>age = ''10'', sex = ''male'', creatinine = ''0.5'',
          creatinineUnit = ''mg/dL'', height = ''120''\<rparr>) \<noteq> []
   \<and> result (compute pow_rounded \<lparr>age = ''10'', sex = ''male'', creatinine = ''0.5'',
          creatinineUnit = ''mg/dL'', height = ''120''\<rparr>) = Some (Fin 99)
   \<and> dom (errors (compute pow_rounded \<lparr>age = ''150'', sex = ''male'', creatinine = ''25'',
          creatinineUnit = ''mg/dL'', height = []\<rparr>)) \<noteq> {}
   \<and> result (compute pow_rounded \<lparr>age = ''150'', sex = ''male'', creatinine = ''25'',
          creatinineUnit = ''mg/dL'', height = []\<rparr>) = None"
proof -
  define ok where "ok = \<lparr>age = ''10'', sex = ''male'', creatinine = ''0.5'',
          creatinineUnit = ''mg/dL'', height = ''120''\<rparr>"
  define bad where "bad = \<lparr>age = ''150'', sex = ''male'', creatinine = ''25'',
          creatinineUnit = ''mg/dL'', height = []\<rparr>"
  have 1: "dom (errors (compute pow_rounded ok)) = {}"
    by (simp add: compute_errors ok_def form_eval)
  have 2: "required_filled ok"
    by (simp add: ok_def form_eval)
  have 3: "errors (compute pow_rounded bad) ''age'' \<noteq> None"
    by (simp add: compute_errors bad_def form_eval)
  then have 4: "dom (errors (compute pow_rounded bad)) \<noteq> {}"
    by auto
  have 5: "CKD_EPI_2021_name \<noteq> [] \<and> SCHWARTZ_2009_name \<noteq> []"
    by (simp add: CKD_EPI_2021_name_def SCHWARTZ_2009_name_def)
  have 6: "result (compute pow_rounded ok) = Some (Fin 99)"
    by (simp add: compute_result ok_def form_eval convertCreatinine_def schwartz_05_120)
  show ?thesis
    using 1 2 4 5 6 compute_all_or_nothing [of pow_rounded ok]
      compute_all_or_nothing [of pow_rounded bad]
    unfolding ok_def bad_def by metis
qed

text \<open>
  The claim as first stated, that every request returns either a failure map that is not
  empty or a complete result, fails on a form whose sex is not chosen and on the empty
  form: no failure is reported and no result is returned.
\<close>

theorem compute_all_or_nothing_counterexample:
  "dom (errors (compute pow_rounded \<lparr>age = ''70'', sex = [], creatinine = ''1.0'',
          creatinineUnit = ''mg/dL'', height = []\<rparr>)) = {}
   \<and> result (compute pow_rounded \<lparr>age = ''70'', sex = [], creatinine = ''1.0'',
          creatinineUnit = ''mg/dL'', height = []\<rparr>) = None
   \<and> dom (errors (compute pow_rounded initial_form)) = {}
   \<and> result (compute pow_rounded initial_form) = None"
  by (simp add: compute_errors compute_result initial_form_def form_eval)

text \<open>
  Claim C7. The formula is chosen by the age alone, at the threshold 18: a request that
  returns a result has a validated age between 1 and 120; from 18 on the result is that
  of \<open>calculateCKDEPI2021\<close> under the name CKD-EPI 2021, and below 18 it is that of
  \<open>calculateSchwartz2009\<close> under the name Bedside Schwartz 2009.
\<close>

theorem formula_selection:
  assumes "result (compute pw fd) \<noteq> None"
  shows "\<exists>a. parseFloat (age fd) = Fin a \<and> 1 \<le> a \<and> a \<le> 120
     \<and> (18 \<le> a \<longrightarrow>
          formula (compute pw fd) = CKD_EPI_2021_name
          \<and> result (compute pw fd) =
              Some (calculateCKDEPI2021 pw
                      (convertCreatinine (creatinine fd) (creatinineUnit fd)) (Fin a)
                      (sex fd = ''female'')))
     \<and> (a < 18 \<longrightarrow>
          formula (compute pw fd) = SCHWARTZ_2009_name
          \<and> result (compute pw fd) =
              Some (calculateSchwartz2009
                      (convertCreatinine (creatinine fd) (creatinineUnit fd))
                      (parseFloat (height fd))))"
proof -
  note v = compute_result_valid [OF assms]
  obtain a where a: "parseFloat (age fd) = Fin a" "1 \<le> a" "a \<le> 120"
    using valid_form_age [OF v] by blast
  show ?thesis
    using v a by (intro exI [of _ a]) (simp add: compute_result compute_formula js_ge_Fin)
qed

theorem formula_selection_witness:
  "result (compute pow_rounded \<lparr>age = ''70'', sex = ''male'', creatinine = ''1.0'',
          creatinineUnit = ''mg/dL'', height = []\<rparr>) \<noteq> None
   \<and> formula (compute pow_rounded \<lparr>age = ''70'', sex = ''male'', creatinine = ''1.0'',
          creatinineUnit = ''mg/dL'', height = []\<rparr>) = CKD_EPI_2021_name
   \<and> result (compute pow_rounded \<lparr>age = ''17.9'', sex = ''female'', creatinine = ''0.5'',
          creatinineUnit = ''mg/dL'', height = ''120''\<rparr>) \<noteq> None
   \<and> formula (compute pow_rounded \<lparr>age = ''17.9'', sex = ''female'', creatinine = ''0.5'',
          creatinineUnit = ''mg/dL'', height = ''120''\<rparr>) = SCHWARTZ_2009_name"
proof -
  define adult where "adult = \<lparr>age = ''70'', sex = ''male'', creatinine = ''1.0'',
          creatinineUnit = ''mg/dL'', height = []\<rparr>"
  define child where "child = \<lparr>age = ''17.9'', sex = ''female'', creatinine = ''0.5'',
          creatinineUnit = ''mg/dL'', height = ''120''\<rparr>"
  have 1: "result (compute pow_rounded adult) \<noteq> None"
    by (simp add: compute_result adult_def form_eval)
  have 2: "result (compute pow_rounded child) \<noteq> None"
    by (simp add: compute_result child_def form_eval)
  have 3: "parseFloat (age adult) = Fin 70"
    by (simp add: adult_def parse_70)
  have 4: "parseFloat (age child) = Fin (2519201041560371 / 2 ^ 47)"
    by (simp add: child_def parse_17_9)
  have "formula (compute pow_rounded adult) = CKD_EPI_2021_name"
    using formula_selection [OF 1] unfolding 3 by auto
  moreover have "formula (compute pow_rounded child) = SCHWARTZ_2009_name"
    using formula_selection [OF 2] unfolding 4 by auto
  ultimately show ?thesis
    using 1 2 unfolding adult_def child_def by blast
qed







text \<open>
  Claim C9, at the input where the code breaks it. The form of age 10, height 120 cm and
  creatinine \<open>5e-324\<close> in the micromole unit passes every validator, the creatinine being
  above zero in its entry unit. The conversion divides it by 88.4 and the quotient
  underflows to zero, so \<open>calculateSchwartz2009\<close> divides by zero and the request returns
  \<open>Infinity\<close> as the eGFR.
\<close>

theorem schwartz_division_by_zero:
  "validateCreatinine ''5e-324'' umol_L = None
   \<and> js_gt (parseFloat ''5e-324'') (Fin 0)
   \<and> convertCreatinine ''5e-324'' umol_L = Fin 0
   \<and> dom (errors (compute pw \<lparr>age = ''10'', sex = ''male'', creatinine = ''5e-324'',
          creatinineUnit = umol_L, height = ''120''\<rparr>)) = {}
   \<and> formula (compute pw \<lparr>age = ''10'', sex = ''male'', creatinine = ''5e-324'',
          creatinineUnit = umol_L, height = ''120''\<rparr>) = SCHWARTZ_2009_name
   \<and> result (compute pw \<lparr>age = ''10'', sex = ''male'', creatinine = ''5e-324'',
          creatinineUnit = umol_L, height = ''120''\<rparr>) = Some PInf"
proof -
  define fd where "fd = \<lparr>age = ''10'', sex = ''male'', creatinine = ''5e-324'',
          creatinineUnit = umol_L, height = ''120''\<rparr>"
  have 1: "validateCreatinine ''5e-324'' umol_L = None"
    and 2: "js_gt (parseFloat ''5e-324'') (Fin 0)"
    by (simp_all add: validateCreatinine_def parse_5e324 js_gt_Fin js_le_Fin)
  have 3: "dom (errors (compute pw fd)) = {}"
    by (simp add: compute_errors fd_def form_eval)
  have 4: "formula (compute pw fd) = SCHWARTZ_2009_name"
    by (simp add: compute_formula fd_def form_eval)
  have "result (compute pw fd)
        = Some (calculateSchwartz2009 (convertCreatinine ''5e-324'' umol_L) (Fin 120))"
    by (simp add: compute_result fd_def form_eval)
  then have 5: "result (compute pw fd) = Some PInf"
    unfolding convert_5e324 schwartz_zero_120 .
  show ?thesis
    using 1 2 3 4 5 convert_5e324 unfolding fd_def by simp
qed

end
